theory Spec2Isabelle
  imports Complex_Main "HOL-Library.Sublist"
begin

section \<open>Silver price movement analysis: the data model\<close>

text \<open>
  The repository holds four variants of one batch script. The model follows
  \<^verbatim>\<open>analyze_silver_prices_v2.py\<close> (CSV feed) and \<^verbatim>\<open>analyze_silver_prices_REAL.py\<close>
  (chart feed, with sigma values). Python floats are modelled as real numbers: every
  value is finite and arithmetic is exact. The builtin \<^verbatim>\<open>float(s)\<close> is a parameter of
  the model, a function from strings to \<open>real option\<close> where \<open>None\<close> stands for the
  \<^verbatim>\<open>ValueError\<close> that Python raises on text that is no number.
\<close>

datatype py_error =
  ValueError | KeyError | IndexError | ZeroDivisionError | TypeError | StopIteration

text \<open>A raw row is a dictionary from column names to text, as \<^verbatim>\<open>csv.DictReader\<close> yields it.\<close>

type_synonym raw_row = "string \<rightharpoonup> string"

type_synonym float_parser = "string \<Rightarrow> real option"

text \<open>
  The dictionaries that \<^verbatim>\<open>process_data\<close> appends to \<^verbatim>\<open>data\<close>. The v2 variant
  carries one more key, \<^verbatim>\<open>adj_close\<close>.
\<close>

record observation =
  date :: string
  close :: real
  volume :: int
  daily_change :: "real option"
  daily_change_pct :: "real option"

record observation_v2 = observation +
  adj_close :: real

section \<open>Coercion of one raw row\<close>

text \<open>\<^verbatim>\<open>row[k]\<close>: a missing key raises \<^verbatim>\<open>KeyError\<close>.\<close>

definition getitem :: "raw_row \<Rightarrow> string \<Rightarrow> py_error + string" where
  "getitem row k = (case row k of None \<Rightarrow> Inl KeyError | Some s \<Rightarrow> Inr s)"

text \<open>\<^verbatim>\<open>float(row[k])\<close>\<close>

definition float_item :: "float_parser \<Rightarrow> raw_row \<Rightarrow> string \<Rightarrow> py_error + real" where
  "float_item pyfloat row k =
     (case getitem row k of
        Inl e \<Rightarrow> Inl e
      | Inr s \<Rightarrow> (case pyfloat s of None \<Rightarrow> Inl ValueError | Some v \<Rightarrow> Inr v))"

text \<open>\<^verbatim>\<open>int(x)\<close> on a float truncates towards zero.\<close>

definition py_int :: "real \<Rightarrow> int" where
  "py_int x = (if 0 \<le> x then \<lfloor>x\<rfloor> else \<lceil>x\<rceil>)"

text \<open>The truth value of \<^verbatim>\<open>row.get(k)\<close>: the key is present and its text is not empty.\<close>

definition truthy_get :: "raw_row \<Rightarrow> string \<Rightarrow> bool" where
  "truthy_get row k = (case row k of None \<Rightarrow> False | Some s \<Rightarrow> s \<noteq> [])"

text \<open>
  The first four statements of the \<^verbatim>\<open>try\<close> block of v2, in source order. The two
  change fields start as \<^verbatim>\<open>None\<close>.
\<close>

definition parse_row_v2 :: "float_parser \<Rightarrow> raw_row \<Rightarrow> py_error + observation_v2" where
  "parse_row_v2 pyfloat row =
     (case getitem row ''Date'' of
        Inl e \<Rightarrow> Inl e
      | Inr d \<Rightarrow>
     (case float_item pyfloat row ''Close'' of
        Inl e \<Rightarrow> Inl e
      | Inr c \<Rightarrow>
     (case (if truthy_get row ''Adj Close'' then float_item pyfloat row ''Adj Close''
            else Inr c) of
        Inl e \<Rightarrow> Inl e
      | Inr a \<Rightarrow>
     (case (if truthy_get row ''Volume'' \<and> row ''Volume'' \<noteq> Some ''null''
            then (case float_item pyfloat row ''Volume'' of
                    Inl e \<Rightarrow> Inl e | Inr v \<Rightarrow> Inr (py_int v))
            else Inr 0) of
        Inl e \<Rightarrow> Inl e
      | Inr vol \<Rightarrow>
          Inr \<lparr>date = d, close = c, volume = vol, daily_change = None,
               daily_change_pct = None, adj_close = a\<rparr>))))"

text \<open>The REAL variant reads three keys and has no default for the volume.\<close>

definition parse_row_REAL :: "float_parser \<Rightarrow> raw_row \<Rightarrow> py_error + observation" where
  "parse_row_REAL pyfloat row =
     (case getitem row ''Date'' of
        Inl e \<Rightarrow> Inl e
      | Inr d \<Rightarrow>
     (case float_item pyfloat row ''Close'' of
        Inl e \<Rightarrow> Inl e
      | Inr c \<Rightarrow>
     (case float_item pyfloat row ''Volume'' of
        Inl e \<Rightarrow> Inl e
      | Inr v \<Rightarrow>
          Inr \<lparr>date = d, close = c, volume = py_int v, daily_change = None,
               daily_change_pct = None\<rparr>)))"

section \<open>process_data\<close>

text \<open>
  The rest of the \<^verbatim>\<open>try\<close> block, shared by both variants: for a raw index
  \<open>i > 0\<close> the previous close is read from \<^verbatim>\<open>data[-1]\<close>, which raises
  \<^verbatim>\<open>IndexError\<close> on an empty list, and the division raises
  \<^verbatim>\<open>ZeroDivisionError\<close> on a zero previous close. The row is then appended.
\<close>

definition process_row ::
  "(raw_row \<Rightarrow> py_error + 'a observation_scheme) \<Rightarrow> nat \<Rightarrow> raw_row \<Rightarrow>
   'a observation_scheme list \<Rightarrow> py_error + 'a observation_scheme list" where
  "process_row parse i row data =
     (case parse row of
        Inl e \<Rightarrow> Inl e
      | Inr ob \<Rightarrow>
          if 0 < i then
            (if data = [] then Inl IndexError
             else
               let prev_close = close (last data);
                   dc = close ob - prev_close
               in if prev_close = 0 then Inl ZeroDivisionError
                  else Inr (data @ [ob\<lparr>daily_change := Some dc,
                                        daily_change_pct := Some (dc / prev_close * 100)\<rparr>]))
          else Inr (data @ [ob]))"

text \<open>
  The \<^verbatim>\<open>for i, row in enumerate(rows)\<close> loop. The handler catches
  \<^verbatim>\<open>ValueError\<close> and \<^verbatim>\<open>KeyError\<close> only and continues with \<^verbatim>\<open>data\<close> unchanged;
  every other exception leaves the function.
\<close>

fun process_loop ::
  "(raw_row \<Rightarrow> py_error + 'a observation_scheme) \<Rightarrow> nat \<Rightarrow> raw_row list \<Rightarrow>
   'a observation_scheme list \<Rightarrow> py_error + 'a observation_scheme list" where
  "process_loop parse i [] data = Inr data"
| "process_loop parse i (row # rows) data =
     (case process_row parse i row data of
        Inl e \<Rightarrow>
          if e = ValueError \<or> e = KeyError then process_loop parse (Suc i) rows data
          else Inl e
      | Inr data' \<Rightarrow> process_loop parse (Suc i) rows data')"

text \<open>After the loop the first entry is removed when there is one.\<close>

definition process_data_with ::
  "(raw_row \<Rightarrow> py_error + 'a observation_scheme) \<Rightarrow> raw_row list \<Rightarrow>
   py_error + 'a observation_scheme list" where
  "process_data_with parse rows =
     (case process_loop parse 0 rows [] of
        Inl e \<Rightarrow> Inl e
      | Inr data \<Rightarrow> Inr (if data \<noteq> [] then tl data else data))"

definition process_data :: "float_parser \<Rightarrow> raw_row list \<Rightarrow> py_error + observation_v2 list" where
  "process_data pyfloat rows = process_data_with (parse_row_v2 pyfloat) rows"

definition process_data_REAL :: "float_parser \<Rightarrow> raw_row list \<Rightarrow> py_error + observation list" where
  "process_data_REAL pyfloat rows = process_data_with (parse_row_REAL pyfloat) rows"

section \<open>rank_movements\<close>

text \<open>
  Python slices with a signed bound: \<^verbatim>\<open>xs[:n]\<close> and \<^verbatim>\<open>xs[n:]\<close>. A negative bound
  counts from the end and is clipped at the start of the list.
\<close>

definition slice_to :: "'a list \<Rightarrow> int \<Rightarrow> 'a list" where
  "slice_to xs n = (if 0 \<le> n then take (nat n) xs else take (length xs - nat (- n)) xs)"

definition slice_from :: "'a list \<Rightarrow> int \<Rightarrow> 'a list" where
  "slice_from xs n = (if 0 \<le> n then drop (nat n) xs else drop (length xs - nat (- n)) xs)"

text \<open>The sort key: \<^verbatim>\<open>x['daily_change_pct'] if x['daily_change_pct'] is not None else 0\<close>\<close>

definition pct_key :: "'a observation_scheme \<Rightarrow> real" where
  "pct_key x = (case daily_change_pct x of None \<Rightarrow> 0 | Some v \<Rightarrow> v)"

text \<open>
  The builtin \<^verbatim>\<open>sorted(xs, key=..., reverse=True)\<close>: a stable sort by descending key,
  in which elements with equal keys keep their original order.
\<close>

definition sorted_reverse :: "('a \<Rightarrow> real) \<Rightarrow> 'a list \<Rightarrow> 'a list" where
  "sorted_reverse key xs = sort_key (\<lambda>x. - key x) xs"

definition rank_movements ::
  "'a observation_scheme list \<Rightarrow> int \<Rightarrow>
   'a observation_scheme list \<times> 'a observation_scheme list" where
  "rank_movements data top_n =
     (let sorted_data = sorted_reverse pct_key data;
          top_gains = slice_to sorted_data top_n;
          top_losses = rev (slice_from sorted_data (- top_n))
      in (top_gains, top_losses))"

section \<open>calculate_statistics\<close>

record summary =
  max_gain_pct :: real
  max_gain_date :: string
  max_loss_pct :: real
  max_loss_date :: string
  avg_daily_change_pct :: real
  volatility_std :: real

record statistics = summary +
  total_days :: nat

text \<open>
  The builtins \<^verbatim>\<open>max\<close> and \<^verbatim>\<open>min\<close> on a list: the first item, replaced by each
  later item that is strictly greater (smaller). An empty list raises \<^verbatim>\<open>ValueError\<close>.
\<close>

fun py_max :: "real list \<Rightarrow> py_error + real" where
  "py_max [] = Inl ValueError"
| "py_max (x # xs) = Inr (fold (\<lambda>y m. if m < y then y else m) xs x)"

fun py_min :: "real list \<Rightarrow> py_error + real" where
  "py_min [] = Inl ValueError"
| "py_min (x # xs) = Inr (fold (\<lambda>y m. if y < m then y else m) xs x)"

text \<open>
  \<^verbatim>\<open>next(d['date'] for d in data if d['daily_change_pct'] == v)\<close>: the date of the
  first entry whose change equals \<open>v\<close>; an exhausted generator raises
  \<^verbatim>\<open>StopIteration\<close>.
\<close>

definition next_date :: "'a observation_scheme list \<Rightarrow> real \<Rightarrow> py_error + string" where
  "next_date data v =
     (case find (\<lambda>d. daily_change_pct d = Some v) data of
        None \<Rightarrow> Inl StopIteration
      | Some d \<Rightarrow> Inr (date d))"

text \<open>
  The result is \<open>None\<close> for the empty dictionary \<^verbatim>\<open>{}\<close> that the function returns
  when no change is set. \<^verbatim>\<open>variance ** 0.5\<close> is the square root.
\<close>

definition calculate_statistics ::
  "'a observation_scheme list \<Rightarrow> py_error + statistics option" where
  "calculate_statistics data =
     (let changes = List.map_filter daily_change_pct data in
      if changes = [] then Inr None
      else
        (case py_max changes of
           Inl e \<Rightarrow> Inl e
         | Inr max_gain \<Rightarrow>
        (case py_min changes of
           Inl e \<Rightarrow> Inl e
         | Inr max_loss \<Rightarrow>
            let avg_change = sum_list changes / real (length changes);
                variance = sum_list (map (\<lambda>x. (x - avg_change)\<^sup>2) changes)
                           / real (length changes);
                std_dev = sqrt variance
            in
        (case next_date data max_gain of
           Inl e \<Rightarrow> Inl e
         | Inr gain_date \<Rightarrow>
        (case next_date data max_loss of
           Inl e \<Rightarrow> Inl e
         | Inr loss_date \<Rightarrow>
            Inr (Some \<lparr>max_gain_pct = max_gain, max_gain_date = gain_date,
                       max_loss_pct = max_loss, max_loss_date = loss_date,
                       avg_daily_change_pct = avg_change, volatility_std = std_dev,
                       total_days = length changes\<rparr>))))))"

section \<open>calculate_sigma and save_results\<close>

text \<open>\<^verbatim>\<open>(value - mean) / std_dev\<close>: a zero divisor raises \<^verbatim>\<open>ZeroDivisionError\<close>.\<close>

definition calculate_sigma :: "real \<Rightarrow> real \<Rightarrow> real \<Rightarrow> py_error + real" where
  "calculate_sigma v mean std_dev =
     (if std_dev = 0 then Inl ZeroDivisionError else Inr ((v - mean) / std_dev))"

text \<open>
  One entry of \<^verbatim>\<open>top_gains\<close> or \<^verbatim>\<open>top_losses\<close> in the \<^verbatim>\<open>results\<close> dictionary.
  The source renders each number as text with two decimals; the model keeps the number
  that is rendered, and \<open>None\<close> where the source writes \<^verbatim>\<open>'N/A'\<close>.
\<close>

record entry =
  Date :: string
  Close_Price :: real
  Daily_Change :: "real option"
  Daily_Change_Pct :: "real option"
  Volume :: int

text \<open>The REAL variant adds the key \<^verbatim>\<open>Sigma\<close>, here \<open>Sigma_score\<close>.\<close>

record entry_sigma = entry +
  Sigma_score :: real

text \<open>
  The \<^verbatim>\<open>results\<close> dictionary, which \<^verbatim>\<open>save_results\<close> writes as JSON and renders as
  the text report. The nested \<^verbatim>\<open>data_period\<close> keys are the three \<open>period\<close> fields.
\<close>

record 'e report =
  analysis_date :: string
  period_start :: string
  period_end :: string
  period_total_days :: nat
  top_gains :: "'e list"
  top_losses :: "'e list"
  statistics :: summary

record 'e report_REAL = "'e report" +
  data_source :: string

definition format_entry :: "'a observation_scheme \<Rightarrow> entry" where
  "format_entry d =
     \<lparr>Date = date d, Close_Price = close d, Daily_Change = daily_change d,
      Daily_Change_Pct = daily_change_pct d, Volume = volume d\<rparr>"

text \<open>\<^verbatim>\<open>stats.get(key, default)\<close> for the six keys of the statistics block.\<close>

definition statistics_block :: "statistics option \<Rightarrow> summary" where
  "statistics_block stats =
     (case stats of
        None \<Rightarrow> \<lparr>max_gain_pct = 0, max_gain_date = ''N/A'', max_loss_pct = 0,
                  max_loss_date = ''N/A'', avg_daily_change_pct = 0, volatility_std = 0\<rparr>
      | Some s \<Rightarrow> \<lparr>max_gain_pct = max_gain_pct s, max_gain_date = max_gain_date s,
                    max_loss_pct = max_loss_pct s, max_loss_date = max_loss_date s,
                    avg_daily_change_pct = avg_daily_change_pct s,
                    volatility_std = volatility_std s\<rparr>)"

text \<open>
  \<^verbatim>\<open>save_results\<close> of v2. The time stamp \<^verbatim>\<open>datetime.now()\<close> is the argument
  \<open>now\<close>; the files written are renderings of the value returned here.
\<close>

definition save_results ::
  "'a observation_scheme list \<Rightarrow> 'a observation_scheme list \<Rightarrow> 'a observation_scheme list \<Rightarrow>
   statistics option \<Rightarrow> string \<Rightarrow> entry report" where
  "save_results gains losses data stats now =
     \<lparr>analysis_date = now,
      period_start = (if data \<noteq> [] then date (hd data) else ''N/A''),
      period_end = (if data \<noteq> [] then date (last data) else ''N/A''),
      period_total_days = (case stats of None \<Rightarrow> 0 | Some s \<Rightarrow> total_days s),
      top_gains = map format_entry gains,
      top_losses = map format_entry losses,
      statistics = statistics_block stats\<rparr>"

text \<open>
  The two annotation loops of the REAL variant. \<^verbatim>\<open>calculate_sigma\<close> subtracts first,
  so an unset change raises \<^verbatim>\<open>TypeError\<close> before the division is reached.
\<close>

fun with_sigma ::
  "real \<Rightarrow> real \<Rightarrow> 'a observation_scheme list \<Rightarrow> py_error + entry_sigma list" where
  "with_sigma mean std_dev [] = Inr []"
| "with_sigma mean std_dev (d # ds) =
     (case daily_change_pct d of
        None \<Rightarrow> Inl TypeError
      | Some v \<Rightarrow>
     (case calculate_sigma v mean std_dev of
        Inl e \<Rightarrow> Inl e
      | Inr sigma \<Rightarrow>
     (case with_sigma mean std_dev ds of
        Inl e \<Rightarrow> Inl e
      | Inr rest \<Rightarrow>
          Inr (\<lparr>Date = date d, Close_Price = close d, Daily_Change = daily_change d,
                Daily_Change_Pct = daily_change_pct d, Volume = volume d,
                Sigma_score = sigma\<rparr> # rest))))"

text \<open>
  \<^verbatim>\<open>save_results\<close> of the REAL variant: \<^verbatim>\<open>stats['avg_daily_change_pct']\<close> raises
  \<^verbatim>\<open>KeyError\<close> on the empty dictionary, and both annotation loops run before the
  \<^verbatim>\<open>results\<close> dictionary is built.
\<close>

definition save_results_REAL ::
  "'a observation_scheme list \<Rightarrow> 'a observation_scheme list \<Rightarrow> 'a observation_scheme list \<Rightarrow>
   statistics option \<Rightarrow> string \<Rightarrow> py_error + entry_sigma report_REAL" where
  "save_results_REAL gains losses data stats now =
     (case stats of
        None \<Rightarrow> Inl KeyError
      | Some s \<Rightarrow>
     (case with_sigma (avg_daily_change_pct s) (volatility_std s) gains of
        Inl e \<Rightarrow> Inl e
      | Inr gains_with_sigma \<Rightarrow>
     (case with_sigma (avg_daily_change_pct s) (volatility_std s) losses of
        Inl e \<Rightarrow> Inl e
      | Inr losses_with_sigma \<Rightarrow>
          Inr \<lparr>analysis_date = now,
               period_start = (if data \<noteq> [] then date (hd data) else ''N/A''),
               period_end = (if data \<noteq> [] then date (last data) else ''N/A''),
               period_total_days = total_days s,
               top_gains = gains_with_sigma,
               top_losses = losses_with_sigma,
               statistics = statistics_block stats,
               data_source = ''Yahoo Finance - REAL MARKET DATA''\<rparr>)))"

section \<open>main\<close>

text \<open>
  How a run ends: the two early returns of \<^verbatim>\<open>main\<close> after an error message, an
  exception that nothing catches, or the report handed to \<^verbatim>\<open>save_results\<close>.
\<close>

datatype 'r outcome = No_Rows | No_Valid_Data | Crash py_error | Saved 'r

text \<open>
  \<^verbatim>\<open>main\<close> of v2, with the rows that the feed returned and the clock reading as
  arguments. The summary block reads \<^verbatim>\<open>stats['max_gain_pct']\<close>, a \<^verbatim>\<open>KeyError\<close> on
  the empty dictionary; the two display loops cannot raise.
\<close>

definition main :: "float_parser \<Rightarrow> raw_row list \<Rightarrow> string \<Rightarrow> entry report outcome" where
  "main pyfloat rows now =
     (if rows = [] then No_Rows
      else
        (case process_data pyfloat rows of
           Inl e \<Rightarrow> Crash e
         | Inr data \<Rightarrow>
             if data = [] then No_Valid_Data
             else
               (case calculate_statistics data of
                  Inl e \<Rightarrow> Crash e
                | Inr stats \<Rightarrow>
                    let (gains, losses) = rank_movements data 50 in
                    if stats = None then Crash KeyError
                    else Saved (save_results gains losses data stats now))))"

text \<open>
  The display loops of the REAL variant compute a sigma for each of the first ten
  entries and render \<^verbatim>\<open>d['daily_change']\<close> with a number format, a \<^verbatim>\<open>TypeError\<close>
  when it is unset.
\<close>

fun display_REAL :: "statistics \<Rightarrow> 'a observation_scheme list \<Rightarrow> py_error + unit" where
  "display_REAL s [] = Inr ()"
| "display_REAL s (d # ds) =
     (case calculate_sigma (pct_key d) (avg_daily_change_pct s) (volatility_std s) of
        Inl e \<Rightarrow> Inl e
      | Inr sigma \<Rightarrow>
          (case daily_change d of
             None \<Rightarrow> Inl TypeError
           | Some c \<Rightarrow> display_REAL s ds))"

definition main_REAL ::
  "float_parser \<Rightarrow> raw_row list \<Rightarrow> string \<Rightarrow> entry_sigma report_REAL outcome" where
  "main_REAL pyfloat rows now =
     (if rows = [] then No_Rows
      else
        (case process_data_REAL pyfloat rows of
           Inl e \<Rightarrow> Crash e
         | Inr data \<Rightarrow>
             if data = [] then No_Valid_Data
             else
               (case calculate_statistics data of
                  Inl e \<Rightarrow> Crash e
                | Inr stats \<Rightarrow>
                    let (gains, losses) = rank_movements data 50 in
                    (case stats of
                       None \<Rightarrow> Crash KeyError
                     | Some s \<Rightarrow>
                    (case display_REAL s (slice_to gains 10) of
                       Inl e \<Rightarrow> Crash e
                     | Inr u \<Rightarrow>
                    (case display_REAL s (slice_to losses 10) of
                       Inl e \<Rightarrow> Crash e
                     | Inr u' \<Rightarrow>
                    (case save_results_REAL gains losses data stats now of
                       Inl e \<Rightarrow> Crash e
                     | Inr r \<Rightarrow> Saved r)))))))"

section \<open>Example input\<close>

text \<open>
  The value of \<^verbatim>\<open>float\<close> on the literals that the examples use; every other text
  counts as unparseable here.
\<close>

definition example_float :: float_parser where
  "example_float =
     map_of [(''10.00'', 10), (''11.00'', 11), (''9.90'', 99 / 10), (''0'', 0),
             (''5.00'', 5), (''1000'', 1000)]"

definition example_row :: "string \<Rightarrow> string \<Rightarrow> raw_row" where
  "example_row d c = map_of [(''Date'', d), (''Close'', c), (''Volume'', ''1000'')]"

text \<open>The scenario of the specification: closes 10.00, 10.00, 11.00, 9.90.\<close>

definition scenario_rows :: "raw_row list" where
  "scenario_rows =
     [example_row ''d0'' ''10.00'', example_row ''d1'' ''10.00'',
      example_row ''d2'' ''11.00'', example_row ''d3'' ''9.90'']"

definition example_price :: "string \<Rightarrow> real \<Rightarrow> observation" where
  "example_price d c =
     \<lparr>date = d, close = c, volume = 1000, daily_change = None, daily_change_pct = None\<rparr>"

definition example_price_v2 :: "string \<Rightarrow> real \<Rightarrow> observation_v2" where
  "example_price_v2 d c =
     \<lparr>date = d, close = c, volume = 1000, daily_change = None, daily_change_pct = None,
      adj_close = c\<rparr>"

definition scenario_prices :: "observation list" where
  "scenario_prices =
     [example_price ''d0'' 10, example_price ''d1'' 10, example_price ''d2'' 11,
      example_price ''d3'' (99 / 10)]"

definition scenario_prices_v2 :: "observation_v2 list" where
  "scenario_prices_v2 =
     [example_price_v2 ''d0'' 10, example_price_v2 ''d1'' 10, example_price_v2 ''d2'' 11,
      example_price_v2 ''d3'' (99 / 10)]"

text \<open>A series whose second close is zero, and one whose first row is no number.\<close>

definition zero_rows :: "raw_row list" where
  "zero_rows =
     [example_row ''d0'' ''10.00'', example_row ''d1'' ''0'', example_row ''d2'' ''5.00'']"


definition bad_first_rows :: "raw_row list" where
  "bad_first_rows = example_row ''d0'' ''n/a'' # scenario_rows"

text \<open>The return series of the scenario, as \<^verbatim>\<open>process_data\<close> of the REAL variant yields it.\<close>

definition scenario_returns :: "observation list" where
  "scenario_returns =
     [\<lparr>date = ''d1'', close = 10, volume = 1000, daily_change = Some 0,
       daily_change_pct = Some 0\<rparr>,
      \<lparr>date = ''d2'', close = 11, volume = 1000, daily_change = Some 1,
       daily_change_pct = Some 10\<rparr>,
      \<lparr>date = ''d3'', close = 99 / 10, volume = 1000, daily_change = Some (- (11 / 10)),
       daily_change_pct = Some (- 10)\<rparr>]"

text \<open>Two days that both lose five percent, then a gain of three percent.\<close>

definition tie_d1 :: observation where
  "tie_d1 = \<lparr>date = ''d1'', close = 95, volume = 1000, daily_change = Some (- 5),
             daily_change_pct = Some (- 5)\<rparr>"

definition tie_d2 :: observation where
  "tie_d2 = \<lparr>date = ''d2'', close = 361 / 4, volume = 1000, daily_change = Some (- (19 / 4)),
             daily_change_pct = Some (- 5)\<rparr>"

definition tie_d3 :: observation where
  "tie_d3 = \<lparr>date = ''d3'', close = 37183 / 400, volume = 1000,
             daily_change = Some (1083 / 400), daily_change_pct = Some 3\<rparr>"

definition tie_returns :: "observation list" where
  "tie_returns = [tie_d1, tie_d2, tie_d3]"

text \<open>Gains and losses of ten percent, each reached on two days.\<close>

definition tied_extrema :: "observation list" where
  "tied_extrema =
     [\<lparr>date = ''d1'', close = 110, volume = 1000, daily_change = Some 10,
       daily_change_pct = Some 10\<rparr>,
      \<lparr>date = ''d2'', close = 99, volume = 1000, daily_change = Some (- 11),
       daily_change_pct = Some (- 10)\<rparr>,
      \<lparr>date = ''d3'', close = 1089 / 10, volume = 1000, daily_change = Some (99 / 10),
       daily_change_pct = Some 10\<rparr>,
      \<lparr>date = ''d4'', close = 9801 / 100, volume = 1000, daily_change = Some (- (1089 / 100)),
       daily_change_pct = Some (- 10)\<rparr>]"




definition single_row :: "raw_row list" where
  "single_row = [example_row ''d0'' ''10.00'']"

definition example_now :: string where
  "example_now = ''2025-12-26 09:30:00''"






text \<open>The report that \<^verbatim>\<open>save_results\<close> of v2 builds from no data and no statistics.\<close>

definition empty_report :: "entry report" where
  "empty_report =
     \<lparr>analysis_date = example_now, period_start = ''N/A'', period_end = ''N/A'',
      period_total_days = 0, top_gains = [], top_losses = [],
      statistics = \<lparr>max_gain_pct = 0, max_gain_date = ''N/A'', max_loss_pct = 0,
                     max_loss_date = ''N/A'', avg_daily_change_pct = 0, volatility_std = 0\<rparr>\<rparr>"

section \<open>Specification vocabulary\<close>

text \<open>
  The return series that the specification describes for a price sequence: entry \<open>i\<close>
  holds the change from close \<open>i\<close> to close \<open>i + 1\<close> and that change as a percentage
  of close \<open>i\<close>.
\<close>

definition returns_of :: "'a observation_scheme list \<Rightarrow> 'b observation_scheme list \<Rightarrow> bool" where
  "returns_of prices out \<longleftrightarrow>
     length out = length prices - 1 \<and>
     (\<forall>i \<in> {0..<length out}.
        daily_change (out ! i) = Some (close (prices ! Suc i) - close (prices ! i)) \<and>
        daily_change_pct (out ! i) =
          Some ((close (prices ! Suc i) - close (prices ! i)) / close (prices ! i) * 100))"

text \<open>
  What the loop appends for a run of accepted rows that follows a close \<open>p\<close>; used to
  state the loop invariant.
\<close>

fun returns :: "real \<Rightarrow> 'a observation_scheme list \<Rightarrow> 'a observation_scheme list" where
  "returns p [] = []"
| "returns p (ob # obs) =
     ob\<lparr>daily_change := Some (close ob - p),
        daily_change_pct := Some ((close ob - p) / p * 100)\<rparr> # returns (close ob) obs"

text \<open>A coercion that fails only with the two exceptions that the loop catches.\<close>

definition only_caught :: "(raw_row \<Rightarrow> py_error + 'a) \<Rightarrow> bool" where
  "only_caught parse \<longleftrightarrow> (\<forall>r e. parse r = Inl e \<longrightarrow> e = ValueError \<or> e = KeyError)"

text \<open>
  The date \<open>d\<close> belongs to the first entry of \<open>data\<close>, in sequence order, whose
  percentage change is \<open>v\<close>.
\<close>

definition first_date_with :: "'a observation_scheme list \<Rightarrow> real \<Rightarrow> string \<Rightarrow> bool" where
  "first_date_with data v d \<longleftrightarrow>
     (\<exists>i \<in> {0..<length data}.
        daily_change_pct (data ! i) = Some v \<and> date (data ! i) = d \<and>
        (\<forall>j \<in> {0..<i}. daily_change_pct (data ! j) \<noteq> Some v))"


section \<open>Properties of process_data\<close>

lemma parse_row_v2_errors: "parse_row_v2 pf r = Inl e \<Longrightarrow> e = ValueError \<or> e = KeyError"
  by (auto simp: parse_row_v2_def getitem_def float_item_def
           split: option.splits sum.splits if_splits)

lemma parse_row_REAL_errors: "parse_row_REAL pf r = Inl e \<Longrightarrow> e = ValueError \<or> e = KeyError"
  by (auto simp: parse_row_REAL_def getitem_def float_item_def
           split: option.splits sum.splits if_splits)


lemma process_loop_empty_IndexError:
  assumes "only_caught parse" "0 < i" "r \<in> set rows" "parse r = Inr ob"
  shows "process_loop parse i rows [] = Inl IndexError"
  using assms
proof (induction rows arbitrary: i)
  case Nil
  then show ?case by simp
next
  case (Cons a rows)
  show ?case
  proof (cases "parse a")
    case (Inl e)
    with Cons.prems(1) have e: "e = ValueError \<or> e = KeyError"
      by (auto simp: only_caught_def)
    from Inl Cons.prems have "r \<in> set rows" by auto
    with Cons.IH[OF Cons.prems(1) _ _ Cons.prems(4), of "Suc i"]
    have "process_loop parse (Suc i) rows [] = Inl IndexError" by simp
    with Inl e show ?thesis by (auto simp: process_row_def)
  next
    case (Inr b)
    with Cons.prems(2) show ?thesis by (simp add: process_row_def)
  qed
qed

lemma process_data_with_first_skipped:
  assumes "only_caught parse" "parse r0 = Inl e" "r \<in> set rest" "parse r = Inr ob"
  shows "process_data_with parse (r0 # rest) = Inl IndexError"
proof -
  from assms(1,2) have "e = ValueError \<or> e = KeyError" by (auto simp: only_caught_def)
  moreover have "process_loop parse (Suc 0) rest [] = Inl IndexError"
    using process_loop_empty_IndexError[OF assms(1) _ assms(3,4)] by simp
  ultimately show ?thesis using assms(2)
    by (auto simp: process_data_with_def process_row_def)
qed


lemma length_returns: "length (returns p obs) = length obs"
  by (induction obs arbitrary: p) auto

lemma returns_nth:
  "i < length obs \<Longrightarrow>
   returns p obs ! i =
     (let q = (if i = 0 then p else close (obs ! (i - 1)))
      in (obs ! i)\<lparr>daily_change := Some (close (obs ! i) - q),
                   daily_change_pct := Some ((close (obs ! i) - q) / q * 100)\<rparr>)"
proof (induction obs arbitrary: p i)
  case Nil
  then show ?case by simp
next
  case (Cons ob obs)
  show ?case
  proof (cases i)
    case 0
    then show ?thesis by simp
  next
    case (Suc j)
    with Cons.prems have "j < length obs" by simp
    from Cons.IH[OF this, of "close ob"] Suc show ?thesis
      by (cases j) (simp_all add: Let_def)
  qed
qed

lemma process_loop_valid:
  assumes "map parse rows = map Inr obs" "0 < i" "data \<noteq> []"
    and "rows \<noteq> [] \<longrightarrow> close (last data) \<noteq> 0"
    and "\<forall>k. Suc k < length obs \<longrightarrow> close (obs ! k) \<noteq> 0"
  shows "process_loop parse i rows data = Inr (data @ returns (close (last data)) obs)"
  using assms
proof (induction rows arbitrary: i data obs)
  case Nil
  then show ?case by simp
next
  case (Cons r rows)
  from Cons.prems(1) obtain ob obs' where obs: "obs = ob # obs'" and r: "parse r = Inr ob"
    and rest: "map parse rows = map Inr obs'"
    by (cases obs) auto
  let ?ob = "ob\<lparr>daily_change := Some (close ob - close (last data)),
                  daily_change_pct := Some ((close ob - close (last data)) / close (last data) * 100)\<rparr>"
  from Cons.prems r have step: "process_row parse i r data = Inr (data @ [?ob])"
    by (simp add: process_row_def Let_def)
  have nz: "rows \<noteq> [] \<longrightarrow> close (last (data @ [?ob])) \<noteq> 0"
  proof
    assume "rows \<noteq> []"
    with rest have "obs' \<noteq> []" by auto
    then have "Suc 0 < length obs" using obs by (cases obs') auto
    with Cons.prems(5) have "close (obs ! 0) \<noteq> 0" by blast
    with obs show "close (last (data @ [?ob])) \<noteq> 0" by simp
  qed
  have nz': "\<forall>k. Suc k < length obs' \<longrightarrow> close (obs' ! k) \<noteq> 0"
  proof (intro allI impI)
    fix k assume "Suc k < length obs'"
    then have "Suc (Suc k) < length obs" using obs by simp
    with Cons.prems(5) have "close (obs ! Suc k) \<noteq> 0" by blast
    with obs show "close (obs' ! k) \<noteq> 0" by simp
  qed
  have "process_loop parse (Suc i) rows (data @ [?ob])
        = Inr ((data @ [?ob]) @ returns (close (last (data @ [?ob]))) obs')"
    by (rule Cons.IH[OF rest _ _ nz nz']) simp_all
  with step obs show ?case by simp
qed

lemma process_data_with_valid:
  assumes "map parse rows = map Inr obs"
    and "\<forall>k. Suc k < length obs \<longrightarrow> close (obs ! k) \<noteq> 0"
  shows "process_data_with parse rows =
           Inr (case obs of [] \<Rightarrow> [] | ob # obs' \<Rightarrow> returns (close ob) obs')"
proof (cases rows)
  case Nil
  with assms(1) show ?thesis by (simp add: process_data_with_def)
next
  case (Cons r rows')
  with assms(1) obtain ob obs' where obs: "obs = ob # obs'" and r: "parse r = Inr ob"
    and rest: "map parse rows' = map Inr obs'"
    by (cases obs) auto
  have nz: "rows' \<noteq> [] \<longrightarrow> close (last [ob]) \<noteq> 0"
  proof
    assume "rows' \<noteq> []"
    with rest have "obs' \<noteq> []" by auto
    then have "Suc 0 < length obs" using obs by (cases obs') auto
    with assms(2) have "close (obs ! 0) \<noteq> 0" by blast
    with obs show "close (last [ob]) \<noteq> 0" by simp
  qed
  have nz': "\<forall>k. Suc k < length obs' \<longrightarrow> close (obs' ! k) \<noteq> 0"
  proof (intro allI impI)
    fix k assume "Suc k < length obs'"
    then have "Suc (Suc k) < length obs" using obs by simp
    with assms(2) have "close (obs ! Suc k) \<noteq> 0" by blast
    with obs show "close (obs' ! k) \<noteq> 0" by simp
  qed
  have "process_loop parse (Suc 0) rows' [ob] = Inr ([ob] @ returns (close (last [ob])) obs')"
    by (rule process_loop_valid[OF rest _ _ nz nz']) simp_all
  with Cons r obs show ?thesis
    by (simp add: process_data_with_def process_row_def)
qed








lemmas coerce_defs =
  getitem_def float_item_def truthy_get_def py_int_def example_float_def example_row_def
  example_price_def example_price_v2_def

lemma only_caught_v2: "only_caught (parse_row_v2 pf)"
  unfolding only_caught_def using parse_row_v2_errors by blast

lemma only_caught_REAL: "only_caught (parse_row_REAL pf)"
  unfolding only_caught_def using parse_row_REAL_errors by blast

lemma butlast_nonzero:
  assumes "\<forall>p \<in> set (butlast prices). close p \<noteq> 0"
  shows "\<forall>k. Suc k < length prices \<longrightarrow> close (prices ! k) \<noteq> 0"
proof (intro allI impI)
  fix k assume "Suc k < length prices"
  then have "k < length (butlast prices)" by simp
  then have "butlast prices ! k \<in> set (butlast prices)" by (rule nth_mem)
  moreover have "butlast prices ! k = prices ! k"
    using \<open>k < length (butlast prices)\<close> by (rule nth_butlast)
  ultimately show "close (prices ! k) \<noteq> 0" using assms by auto
qed

lemma returns_of_returns:
  "returns_of (p # ps) (returns (close p) ps)"
  unfolding returns_of_def
proof (rule conjI, goal_cases)
  case 1
  show ?case by (simp add: length_returns)
next
  case 2
  show ?case
  proof (rule ballI)
  fix i assume "i \<in> {0..<length (returns (close p) ps)}"
  then have i: "i < length ps" by (simp add: length_returns)
  have q: "(if i = 0 then close p else close (ps ! (i - 1))) = close ((p # ps) ! i)"
    by (cases i) simp_all
  from returns_nth[OF i, of "close p"] q
  show "daily_change (returns (close p) ps ! i) =
          Some (close ((p # ps) ! Suc i) - close ((p # ps) ! i)) \<and>
        daily_change_pct (returns (close p) ps ! i) =
          Some ((close ((p # ps) ! Suc i) - close ((p # ps) ! i)) / close ((p # ps) ! i) * 100)"
    by (simp add: Let_def)
  qed
qed

lemma returns_set: "ob \<in> set (returns p obs) \<Longrightarrow> daily_change ob \<noteq> None \<and> daily_change_pct ob \<noteq> None"
  by (induction obs arbitrary: p) auto

lemma process_data_with_returns:
  assumes "map parse rows = map Inr prices" "2 \<le> length rows"
    and "\<forall>p \<in> set (butlast prices). close p \<noteq> 0"
  shows "\<exists>out. process_data_with parse rows = Inr out \<and> length out = length rows - 1 \<and>
           returns_of prices out \<and>
           (\<forall>ob \<in> set out. daily_change ob \<noteq> None \<and> daily_change_pct ob \<noteq> None)"
proof -
  from assms(1) have len: "length prices = length rows" by (metis length_map)
  with assms(2) obtain p ps where prices: "prices = p # ps" by (cases prices) auto
  from process_data_with_valid[OF assms(1) butlast_nonzero[OF assms(3)]] prices
  have "process_data_with parse rows = Inr (returns (close p) ps)" by simp
  moreover have "length (returns (close p) ps) = length rows - 1"
    using len prices by (simp add: length_returns)
  ultimately show ?thesis
    using prices returns_of_returns[of p ps] returns_set[of _ "close p" ps] by blast
qed

lemma scenario_parse_v2:
  "map (parse_row_v2 example_float) scenario_rows = map Inr scenario_prices_v2"
  by (simp add: scenario_rows_def scenario_prices_v2_def parse_row_v2_def coerce_defs)

lemma scenario_parse_REAL:
  "map (parse_row_REAL example_float) scenario_rows = map Inr scenario_prices"
  by (simp add: scenario_rows_def scenario_prices_def parse_row_REAL_def coerce_defs)

text \<open>
  C1, as amended. When every raw row is coercible, there are at least two rows and no
  close other than the last is zero, \<^verbatim>\<open>process_data\<close> returns a list one shorter than
  the input; entry \<open>i\<close> holds the change \<open>close[i+1] - close[i]\<close> and that change
  divided by \<open>close[i]\<close> times 100, and no entry has an unset change. This holds for
  the v2 and the REAL variant. (With a zero close before the last row the division
  raises and nothing is returned, see the counterexample.)
\<close>

theorem process_data_returns:
  "(map (parse_row_v2 pyfloat) rows = map Inr prices \<and> 2 \<le> length rows \<and>
    (\<forall>p \<in> set (butlast prices). close p \<noteq> 0) \<longrightarrow>
      (\<exists>out. process_data pyfloat rows = Inr out \<and> length out = length rows - 1 \<and>
         returns_of prices out \<and>
         (\<forall>ob \<in> set out. daily_change ob \<noteq> None \<and> daily_change_pct ob \<noteq> None))) \<and>
   (map (parse_row_REAL pyfloat) rows = map Inr prices' \<and> 2 \<le> length rows \<and>
    (\<forall>p \<in> set (butlast prices'). close p \<noteq> 0) \<longrightarrow>
      (\<exists>out. process_data_REAL pyfloat rows = Inr out \<and> length out = length rows - 1 \<and>
         returns_of prices' out \<and>
         (\<forall>ob \<in> set out. daily_change ob \<noteq> None \<and> daily_change_pct ob \<noteq> None)))"
  unfolding process_data_def process_data_REAL_def
  using process_data_with_returns[of "parse_row_v2 pyfloat" rows prices]
        process_data_with_returns[of "parse_row_REAL pyfloat" rows prices']
  by blast

text \<open>The scenario of the specification satisfies the hypotheses of C1.\<close>

theorem process_data_returns_witness:
  "map (parse_row_v2 example_float) scenario_rows = map Inr scenario_prices_v2 \<and>
   map (parse_row_REAL example_float) scenario_rows = map Inr scenario_prices \<and>
   2 \<le> length scenario_rows \<and>
   list_all (\<lambda>p. close p \<noteq> 0) (butlast scenario_prices_v2) \<and>
   list_all (\<lambda>p. close p \<noteq> 0) (butlast scenario_prices) \<and>
   (\<exists>out. process_data example_float scenario_rows = Inr out \<and>
      length out = length scenario_rows - 1 \<and> returns_of scenario_prices_v2 out) \<and>
   (\<exists>out. process_data_REAL example_float scenario_rows = Inr out \<and>
      length out = length scenario_rows - 1 \<and> returns_of scenario_prices out)"
proof -
  have len: "2 \<le> length scenario_rows" by (simp add: scenario_rows_def)
  have nz2: "\<forall>p \<in> set (butlast scenario_prices_v2). close p \<noteq> 0"
    by (simp add: scenario_prices_v2_def example_price_v2_def)
  have nz: "\<forall>p \<in> set (butlast scenario_prices). close p \<noteq> 0"
    by (simp add: scenario_prices_def example_price_def)
  from process_data_returns[of example_float scenario_rows scenario_prices_v2 scenario_prices]
    scenario_parse_v2 scenario_parse_REAL len nz2 nz
  show ?thesis unfolding list_all_iff by blast
qed

text \<open>
  C1 as stated fails: three coercible rows with closes 10, 0 and 5 make
  \<^verbatim>\<open>process_data\<close> raise \<^verbatim>\<open>ZeroDivisionError\<close>, so there is no output of length 2.
\<close>

theorem process_data_zero_close_counterexample:
  "map (parse_row_v2 example_float) zero_rows =
     map Inr [example_price_v2 ''d0'' 10, example_price_v2 ''d1'' 0, example_price_v2 ''d2'' 5] \<and>
   2 \<le> length zero_rows \<and>
   process_data example_float zero_rows = Inl ZeroDivisionError"
  by (simp add: zero_rows_def process_data_def process_data_with_def process_row_def
        parse_row_v2_def coerce_defs)



text \<open>
  C10. When the first raw row is rejected and some later row is accepted,
  \<^verbatim>\<open>process_data\<close> ends with \<^verbatim>\<open>IndexError\<close>, which the handler does not catch
  and which ends \<^verbatim>\<open>main\<close> as well: the first accepted row has a raw index above
  zero and reads \<^verbatim>\<open>data[-1]\<close> of the empty list. This holds for the v2 and the REAL
  variant, so such inputs exist.
\<close>

theorem process_data_first_row_skipped:
  "(parse_row_v2 pyfloat r0 = Inl e \<and> r \<in> set rest \<and> parse_row_v2 pyfloat r = Inr ob \<longrightarrow>
      process_data pyfloat (r0 # rest) = Inl IndexError \<and>
      main pyfloat (r0 # rest) now = Crash IndexError) \<and>
   (parse_row_REAL pyfloat r0 = Inl e' \<and> r' \<in> set rest \<and> parse_row_REAL pyfloat r' = Inr ob' \<longrightarrow>
      process_data_REAL pyfloat (r0 # rest) = Inl IndexError \<and>
      main_REAL pyfloat (r0 # rest) now = Crash IndexError)"
proof -
  have "process_data pyfloat (r0 # rest) = Inl IndexError"
    if "parse_row_v2 pyfloat r0 = Inl e" "r \<in> set rest" "parse_row_v2 pyfloat r = Inr ob"
    unfolding process_data_def
    using only_caught_v2 that by (rule process_data_with_first_skipped)
  moreover have "process_data_REAL pyfloat (r0 # rest) = Inl IndexError"
    if "parse_row_REAL pyfloat r0 = Inl e'" "r' \<in> set rest" "parse_row_REAL pyfloat r' = Inr ob'"
    unfolding process_data_REAL_def
    using only_caught_REAL that by (rule process_data_with_first_skipped)
  ultimately show ?thesis by (simp add: main_def main_REAL_def)
qed

text \<open>The scenario rows behind one unparseable row.\<close>

theorem process_data_first_row_skipped_witness:
  "parse_row_v2 example_float (example_row ''d0'' ''n/a'') = Inl ValueError \<and>
   parse_row_REAL example_float (example_row ''d0'' ''n/a'') = Inl ValueError \<and>
   example_row ''d1'' ''10.00'' \<in> set scenario_rows \<and>
   parse_row_v2 example_float (example_row ''d1'' ''10.00'') = Inr (example_price_v2 ''d1'' 10) \<and>
   parse_row_REAL example_float (example_row ''d1'' ''10.00'') = Inr (example_price ''d1'' 10) \<and>
   process_data example_float bad_first_rows = Inl IndexError \<and>
   main example_float bad_first_rows example_now = Crash IndexError \<and>
   process_data_REAL example_float bad_first_rows = Inl IndexError \<and>
   main_REAL example_float bad_first_rows example_now = Crash IndexError"
proof -
  have 1: "parse_row_v2 example_float (example_row ''d0'' ''n/a'') = Inl ValueError"
    by (simp add: parse_row_v2_def coerce_defs)
  have 2: "parse_row_REAL example_float (example_row ''d0'' ''n/a'') = Inl ValueError"
    by (simp add: parse_row_REAL_def coerce_defs)
  have 3: "example_row ''d1'' ''10.00'' \<in> set scenario_rows"
    by (simp add: scenario_rows_def)
  have 4: "parse_row_v2 example_float (example_row ''d1'' ''10.00'') = Inr (example_price_v2 ''d1'' 10)"
    by (simp add: parse_row_v2_def coerce_defs)
  have 5: "parse_row_REAL example_float (example_row ''d1'' ''10.00'') = Inr (example_price ''d1'' 10)"
    by (simp add: parse_row_REAL_def coerce_defs)
  from process_data_first_row_skipped[of example_float "example_row ''d0'' ''n/a''" ValueError
      "example_row ''d1'' ''10.00''" scenario_rows "example_price_v2 ''d1'' 10" example_now ValueError
      "example_row ''d1'' ''10.00''" "example_price ''d1'' 10"] 1 2 3 4 5
  show ?thesis unfolding bad_first_rows_def by blast
qed

section \<open>Properties of rank_movements\<close>

lemma prefix_slice_to: "prefix (slice_to xs n) xs"
  by (simp add: slice_to_def take_is_prefix)

lemma suffix_slice_from: "suffix (slice_from xs n) xs"
  by (simp add: slice_from_def suffix_drop)

lemma sorted_reverse_stable:
  "filter (\<lambda>x. key x = k) (sorted_reverse key xs) = filter (\<lambda>x. key x = k) xs"
proof -
  have "filter (\<lambda>x. - key x = - k) (sort_key (\<lambda>x. - key x) xs)
        = filter (\<lambda>x. - key x = - k) xs"
    by (rule sort_key_stable)
  then show ?thesis by (simp add: sorted_reverse_def)
qed




lemma scenario_process_data_REAL:
  "process_data_REAL example_float scenario_rows = Inr scenario_returns"
  by (simp add: scenario_rows_def scenario_returns_def process_data_REAL_def
        process_data_with_def process_row_def parse_row_REAL_def coerce_defs)

text \<open>
  C2 at the count \<open>N = 0\<close>. The slice \<^verbatim>\<open>sorted_data[-top_n:]\<close> is
  \<^verbatim>\<open>sorted_data[0:]\<close> there, the whole list: for the three returns of the scenario
  \<^verbatim>\<open>top_gains\<close> is empty and \<^verbatim>\<open>top_losses\<close> has three entries, not
  \<open>min 0 3 = 0\<close>.
\<close>

theorem rank_movements_zero:
  "length scenario_returns = 3 \<and>
   fst (rank_movements scenario_returns 0) = [] \<and>
   length (snd (rank_movements scenario_returns 0)) = 3"
  by (simp add: scenario_returns_def rank_movements_def
        sorted_reverse_def slice_to_def slice_from_def pct_key_def)

text \<open>
  C6, as amended. The sort is stable: entries with the same percentage keep their
  chronological order. In \<^verbatim>\<open>top_gains\<close> the entries with a given percentage are
  therefore a prefix of the chronological list of the days with that percentage (the
  earliest ones, earliest first); in \<^verbatim>\<open>top_losses\<close> they are, read backwards, a
  suffix of it (the latest ones, latest first).
\<close>

theorem rank_movements_ties:
  "filter (\<lambda>x. pct_key x = k) (sorted_reverse pct_key data) = filter (\<lambda>x. pct_key x = k) data \<and>
   prefix (filter (\<lambda>x. pct_key x = k) (fst (rank_movements data top_n)))
          (filter (\<lambda>x. pct_key x = k) data) \<and>
   suffix (rev (filter (\<lambda>x. pct_key x = k) (snd (rank_movements data top_n))))
          (filter (\<lambda>x. pct_key x = k) data)"
proof (intro conjI)
  let ?P = "\<lambda>x. pct_key x = k"
  let ?s = "sorted_reverse pct_key data"
  show st: "filter ?P ?s = filter ?P data" by (rule sorted_reverse_stable)
  have "prefix (filter ?P (slice_to ?s top_n)) (filter ?P ?s)"
    by (rule filter_mono_prefix) (rule prefix_slice_to)
  then show "prefix (filter ?P (fst (rank_movements data top_n))) (filter ?P data)"
    by (simp add: rank_movements_def Let_def st)
  have "suffix (filter ?P (slice_from ?s (- top_n))) (filter ?P ?s)"
    by (rule filter_mono_suffix) (rule suffix_slice_from)
  then show "suffix (rev (filter ?P (snd (rank_movements data top_n)))) (filter ?P data)"
    by (simp add: rank_movements_def Let_def st rev_filter)
qed

text \<open>
  C6 as stated fails for the losses: of two days that both lose five percent, with
  \<open>N = 1\<close> the later day \<open>d2\<close> is the one in \<^verbatim>\<open>top_losses\<close>, not the earlier \<open>d1\<close>.
\<close>

theorem rank_movements_ties_counterexample:
  "tie_returns = [tie_d1, tie_d2, tie_d3] \<and>
   pct_key tie_d1 = pct_key tie_d2 \<and>
   snd (rank_movements tie_returns 1) = [tie_d2]"
  by (simp add: tie_returns_def tie_d1_def tie_d2_def tie_d3_def rank_movements_def
        sorted_reverse_def slice_to_def slice_from_def pct_key_def)

section \<open>Properties of calculate_statistics\<close>

lemma py_max_Max: "xs \<noteq> [] \<Longrightarrow> py_max xs = Inr (Max (set xs))"
proof (cases xs)
  case Nil
  assume "xs \<noteq> []" with Nil show ?thesis by simp
next
  case (Cons x ys)
  have "(\<lambda>y m. if m < y then y else m) = (max :: real \<Rightarrow> real \<Rightarrow> real)"
    by (intro ext) (simp add: max_def)
  with Cons Max.set_eq_fold[of x ys] show ?thesis by simp
qed

lemma py_min_Min: "xs \<noteq> [] \<Longrightarrow> py_min xs = Inr (Min (set xs))"
proof (cases xs)
  case Nil
  assume "xs \<noteq> []" with Nil show ?thesis by simp
next
  case (Cons x ys)
  have "(\<lambda>y m. if y < m then y else m) = (min :: real \<Rightarrow> real \<Rightarrow> real)"
    by (intro ext) (auto simp add: min_def)
  with Cons Min.set_eq_fold[of x ys] show ?thesis by simp
qed

lemma set_changes:
  "set (List.map_filter daily_change_pct data) = {v. \<exists>d \<in> set data. daily_change_pct d = Some v}"
  by (force simp: List.map_filter_def image_iff)

lemma next_date_first:
  assumes "d \<in> set data" "daily_change_pct d = Some v"
  shows "\<exists>s. next_date data v = Inr s \<and> first_date_with data v s"
proof -
  from assms have "find (\<lambda>d. daily_change_pct d = Some v) data \<noteq> None"
    by (auto simp: find_None_iff)
  then obtain x where x: "find (\<lambda>d. daily_change_pct d = Some v) data = Some x" by auto
  then obtain i where "i < length data" "daily_change_pct (data ! i) = Some v" "x = data ! i"
    "\<forall>j<i. daily_change_pct (data ! j) \<noteq> Some v"
    unfolding find_Some_iff by blast
  then have "first_date_with data v (date x)"
    unfolding first_date_with_def by auto
  with x show ?thesis by (simp add: next_date_def)
qed

lemma calculate_statistics_some:
  assumes "List.map_filter daily_change_pct data \<noteq> []"
  shows "\<exists>st. calculate_statistics data = Inr (Some st) \<and>
           max_gain_pct st = Max (set (List.map_filter daily_change_pct data)) \<and>
           max_loss_pct st = Min (set (List.map_filter daily_change_pct data)) \<and>
           first_date_with data (max_gain_pct st) (max_gain_date st) \<and>
           first_date_with data (max_loss_pct st) (max_loss_date st)"
proof -
  let ?cs = "List.map_filter daily_change_pct data"
  have fin: "finite (set ?cs)" "set ?cs \<noteq> {}" using assms by auto
  have "Max (set ?cs) \<in> set ?cs" using fin by (rule Max_in)
  then obtain dg where dg: "dg \<in> set data" "daily_change_pct dg = Some (Max (set ?cs))"
    unfolding set_changes by auto
  have "Min (set ?cs) \<in> set ?cs" using fin by (rule Min_in)
  then obtain dl where dl: "dl \<in> set data" "daily_change_pct dl = Some (Min (set ?cs))"
    unfolding set_changes by auto
  from next_date_first[OF dg] obtain sg where
    sg: "next_date data (Max (set ?cs)) = Inr sg" "first_date_with data (Max (set ?cs)) sg"
    by blast
  from next_date_first[OF dl] obtain sl where
    sl: "next_date data (Min (set ?cs)) = Inr sl" "first_date_with data (Min (set ?cs)) sl"
    by blast
  show ?thesis
    using assms sg sl py_max_Max[OF assms] py_min_Min[OF assms]
    by (simp add: calculate_statistics_def Let_def)
qed

lemma changes_all_set:
  assumes "\<forall>d \<in> set data. daily_change_pct d \<noteq> None"
  shows "List.map_filter daily_change_pct data = map pct_key data"
  using assms by (induction data) (auto simp: List.map_filter_simps pct_key_def)

lemma tied_extrema_statistics:
  "calculate_statistics tied_extrema =
     Inr (Some \<lparr>max_gain_pct = 10, max_gain_date = ''d1'', max_loss_pct = - 10,
                max_loss_date = ''d2'', avg_daily_change_pct = 0, volatility_std = sqrt 100,
                total_days = 4\<rparr>)"
  by (simp add: calculate_statistics_def tied_extrema_def List.map_filter_simps next_date_def
        Let_def)

text \<open>
  C7. For a non-empty sequence in which every percentage change is set,
  \<^verbatim>\<open>calculate_statistics\<close> returns statistics whose \<^verbatim>\<open>max_gain_pct\<close> is the greatest
  and whose \<^verbatim>\<open>max_loss_pct\<close> is the least percentage change, and each of the two dates
  is the date of the first entry, in sequence order, that reaches the extremum.
\<close>

theorem calculate_statistics_extrema:
  assumes "data \<noteq> []" and "\<forall>d \<in> set data. daily_change_pct d \<noteq> None"
  shows "\<exists>st. calculate_statistics data = Inr (Some st) \<and>
           max_gain_pct st = Max (pct_key ` set data) \<and>
           max_loss_pct st = Min (pct_key ` set data) \<and>
           first_date_with data (max_gain_pct st) (max_gain_date st) \<and>
           first_date_with data (max_loss_pct st) (max_loss_date st)"
proof -
  have "List.map_filter daily_change_pct data = map pct_key data"
    using assms(2) by (rule changes_all_set)
  moreover from this assms(1) have "List.map_filter daily_change_pct data \<noteq> []" by simp
  ultimately show ?thesis using calculate_statistics_some[of data] by simp
qed


text \<open>Both extrema are reached twice; the dates are those of the first days.\<close>

theorem calculate_statistics_extrema_witness:
  "tied_extrema \<noteq> [] \<and>
   list_all (\<lambda>d. daily_change_pct d \<noteq> None) tied_extrema \<and>
   (\<exists>st. calculate_statistics tied_extrema = Inr (Some st) \<and>
      max_gain_pct st = 10 \<and> max_gain_pct st = Max (pct_key ` set tied_extrema) \<and>
      max_gain_date st = ''d1'' \<and> first_date_with tied_extrema 10 ''d1'' \<and>
      max_loss_pct st = - 10 \<and> max_loss_pct st = Min (pct_key ` set tied_extrema) \<and>
      max_loss_date st = ''d2'' \<and> first_date_with tied_extrema (- 10) ''d2'')"
proof -
  have ne: "tied_extrema \<noteq> []" by (simp add: tied_extrema_def)
  have set: "\<forall>d \<in> set tied_extrema. daily_change_pct d \<noteq> None"
    by (simp add: tied_extrema_def)
  from calculate_statistics_extrema[OF ne set] obtain st where
    st: "calculate_statistics tied_extrema = Inr (Some st)"
      "max_gain_pct st = Max (pct_key ` set tied_extrema)"
      "max_loss_pct st = Min (pct_key ` set tied_extrema)"
      "first_date_with tied_extrema (max_gain_pct st) (max_gain_date st)"
      "first_date_with tied_extrema (max_loss_pct st) (max_loss_date st)"
    by blast
  from st(1) have "max_gain_pct st = 10" "max_gain_date st = ''d1''"
    "max_loss_pct st = - 10" "max_loss_date st = ''d2''"
    unfolding tied_extrema_statistics by auto
  with st ne set show ?thesis unfolding list_all_iff by auto
qed

section \<open>Properties of calculate_sigma\<close>











section \<open>Properties of the report and of main\<close>








lemmas pipeline_defs =
  process_data_def process_data_REAL_def process_data_with_def process_row_def
  parse_row_v2_def parse_row_REAL_def coerce_defs calculate_statistics_def
  List.map_filter_simps next_date_def Let_def rank_movements_def sorted_reverse_def
  slice_to_def slice_from_def pct_key_def calculate_sigma_def save_results_def
  save_results_REAL_def statistics_block_def format_entry_def






text \<open>
  C5, as amended. \<^verbatim>\<open>calculate_statistics\<close> does not fail on an empty sequence: it
  returns the empty dictionary. The run is stopped earlier, in \<^verbatim>\<open>main\<close> of v2: when
  \<^verbatim>\<open>process_data\<close> returns no entry, \<^verbatim>\<open>main\<close> prints an error and returns before
  statistics, ranking and \<^verbatim>\<open>save_results\<close>, so no report is written.
\<close>

theorem empty_returns_halt:
  "calculate_statistics ([] :: observation_v2 list) = Inr None \<and>
   (process_data pyfloat rows = Inr [] \<longrightarrow>
      main pyfloat rows now = (if rows = [] then No_Rows else No_Valid_Data))"
  by (simp add: calculate_statistics_def List.map_filter_simps main_def)

text \<open>A single row leaves no return after trimming.\<close>

theorem empty_returns_halt_witness:
  "process_data example_float single_row = Inr [] \<and>
   main example_float single_row example_now = No_Valid_Data"
proof -
  have 1: "process_data example_float single_row = Inr []"
    by (simp add: single_row_def pipeline_defs)
  have 2: "single_row \<noteq> []" by (simp add: single_row_def)
  from empty_returns_halt[of example_float single_row example_now] 1 2
  show ?thesis by simp
qed

text \<open>
  C5 as stated fails: on the empty sequence \<^verbatim>\<open>calculate_statistics\<close> returns
  normally, and \<^verbatim>\<open>save_results\<close> of v2 accepts that result and builds a report of
  defaults from it.
\<close>

theorem calculate_statistics_empty_counterexample:
  "calculate_statistics ([] :: observation_v2 list) = Inr None \<and>
   save_results [] [] ([] :: observation_v2 list) None example_now = empty_report"
  by (simp add: calculate_statistics_def List.map_filter_simps save_results_def
        statistics_block_def empty_report_def)




end
